theory Spec2Isabelle
  imports Complex_Main
begin

section \<open>Python values and exceptions\<close>

text \<open>
  The application is dynamically typed. The provider's JSON body, the quote dictionary
  built from it and the attributes assigned to a Stock during a refresh hold arbitrary
  Python values, so they are modelled by one datatype of values. Numbers (int, float and
  Decimal alike) are kept as exact rationals: binary floating point is not modelled.
  A dict is an association list read with \<open>map_of\<close>.
\<close>

datatype pyval =
    PNone
  | PBool bool
  | PNum rat
  | PStr string
  | PList "pyval list"
  | PDict "(string \<times> pyval) list"

datatype exn_class =
    RequestException
  | AttributeError
  | TypeError
  | ValueError
  | OtherException

text \<open>A raised exception: its class and the text that \<open>str(e)\<close> gives.\<close>

datatype pyexn = Raised exn_class string

fun exn_cls :: "pyexn \<Rightarrow> exn_class" where
  "exn_cls (Raised c m) = c"

fun exn_str :: "pyexn \<Rightarrow> string" where
  "exn_str (Raised c m) = m"

text \<open>Truth value testing, as \<open>if x:\<close> and \<open>not x\<close> do it.\<close>

fun truthy :: "pyval \<Rightarrow> bool" where
  "truthy PNone = False"
| "truthy (PBool b) = b"
| "truthy (PNum r) = (r \<noteq> 0)"
| "truthy (PStr s) = (s \<noteq> [])"
| "truthy (PList xs) = (xs \<noteq> [])"
| "truthy (PDict kvs) = (kvs \<noteq> [])"

text \<open>
  \<open>x.get(k)\<close>: only a dict has the method; on any other value the attribute lookup
  raises AttributeError. A missing key gives None. The texts of exceptions are
  shortened.
\<close>

fun py_get :: "pyval \<Rightarrow> string \<Rightarrow> pyexn + pyval" where
  "py_get (PDict kvs) k = Inr (case map_of kvs k of None \<Rightarrow> PNone | Some v \<Rightarrow> v)"
| "py_get v k = Inl (Raised AttributeError ''object has no attribute get'')"

text \<open>Unary minus: defined on numbers (a bool counts as 0 or 1), a TypeError elsewhere.\<close>

fun py_neg :: "pyval \<Rightarrow> pyexn + pyval" where
  "py_neg (PNum r) = Inr (PNum (- r))"
| "py_neg (PBool b) = Inr (PNum (if b then - 1 else 0))"
| "py_neg v = Inl (Raised TypeError ''bad operand type for unary -'')"

section \<open>Decimal rounding\<close>

text \<open>
  \<open>round(d, 2)\<close> on a Decimal quantizes to two places under the default context, whose
  rounding mode is half-even. Decimals are modelled as exact rationals; the 28-digit
  precision of the default context is not modelled.
\<close>

definition round_half_even :: "rat \<Rightarrow> int" where
  "round_half_even y =
     (let f = \<lfloor>y\<rfloor>; d = y - of_int f
      in if d < 1 / 2 then f
         else if 1 / 2 < d then f + 1
         else if even f then f else f + 1)"

definition round2 :: "rat \<Rightarrow> rat" where
  "round2 x = of_int (round_half_even (x * 100)) / 100"

section \<open>Data model (models.py)\<close>

text \<open>
  A Stock row. The six quote fields are nullable; their value type is a parameter:
  a row read from the store holds \<open>rat option\<close> (a Decimal or None), the instance
  under refresh holds whatever the provider sent (\<open>pyval\<close>). The fields of Stock that
  no function modelled here reads or writes (tp1 to tp3, sl1 to sl3, rsi, ltp1 to ltp3,
  created\_at) are left out.

  A Trade holds its Stock as \<open>select_related\<close> resolves it; the foreign key is not
  nullable, so the Stock is always there. The user is the user's key, the buy date a day
  number. The class body binds the name \<open>pl_percent\<close> twice, first to a field and then
  to a property; the later binding is the one the class has, so \<open>pl_percent\<close> is a
  property only.
\<close>

record 'v stock =
  pk :: nat
  symbol :: string
  name :: string
  current_price :: 'v
  change :: 'v
  change_percent :: 'v
  volume :: 'v
  high :: 'v
  low :: 'v

record trade =
  user :: nat
  stock :: "rat option stock"
  quantity :: int
  buying_price :: rat
  buy_date :: int
  mtp :: "rat option"
  msl :: "rat option"
  profit_expected :: "rat option"
  profit_percent :: "rat option"
  loss_expected :: "rat option"
  loss_recent :: "rat option"
  pl_ratio :: "rat option"
  rate_difference :: "rat option"
  comments :: string
  max_profit :: "rat option"
  min_profit_loss :: "rat option"

text \<open>Truth value of a nullable Decimal: None and zero are both false.\<close>

fun dec_set :: "rat option \<Rightarrow> bool" where
  "dec_set None = False"
| "dec_set (Some d) = (d \<noteq> 0)"

subsection \<open>Properties of Trade\<close>

definition Trade_total_cost :: "trade \<Rightarrow> rat" where
  "Trade_total_cost t = of_int (quantity t) * buying_price t"

definition Trade_current_price :: "trade \<Rightarrow> rat option" where
  "Trade_current_price t = current_price (stock t)"

definition Trade_current_value :: "trade \<Rightarrow> rat option" where
  "Trade_current_value t =
     (if dec_set (Trade_current_price t)
      then Some (of_int (quantity t) * the (Trade_current_price t))
      else None)"

definition Trade_unrealized_pl :: "trade \<Rightarrow> rat option" where
  "Trade_unrealized_pl t =
     (case Trade_current_value t of
        Some v \<Rightarrow> Some (v - Trade_total_cost t)
      | None \<Rightarrow> None)"

definition Trade_pl_percent :: "trade \<Rightarrow> rat" where
  "Trade_pl_percent t =
     (if Trade_total_cost t \<noteq> 0 \<and> Trade_unrealized_pl t \<noteq> None
      then round2 (the (Trade_unrealized_pl t) / Trade_total_cost t * 100)
      else 0)"

subsection \<open>Trade.save\<close>

text \<open>
  The recomputation runs in the order of the source, each step writing one attribute of
  the instance; the closing call of the inherited \<open>save\<close> writes the row and changes none
  of the attributes modelled here.
\<close>

definition set_profit :: "trade \<Rightarrow> trade" where
  "set_profit t =
     (if dec_set (mtp t)
      then (let t1 = t\<lparr>profit_expected := Some ((the (mtp t) - buying_price t) * of_int (quantity t))\<rparr>
            in if buying_price t1 \<noteq> 0
               then t1\<lparr>profit_percent :=
                         Some (round2 ((the (mtp t1) - buying_price t1) / buying_price t1 * 100))\<rparr>
               else t1\<lparr>profit_percent := None\<rparr>)
      else t\<lparr>profit_expected := None, profit_percent := None\<rparr>)"

definition set_loss_expected :: "trade \<Rightarrow> trade" where
  "set_loss_expected t =
     (if dec_set (msl t)
      then t\<lparr>loss_expected := Some ((buying_price t - the (msl t)) * of_int (quantity t))\<rparr>
      else t\<lparr>loss_expected := None\<rparr>)"

definition set_pl_ratio :: "trade \<Rightarrow> trade" where
  "set_pl_ratio t =
     (if dec_set (mtp t) \<and> dec_set (msl t) \<and> buying_price t \<noteq> 0
      then (let profit_per_share = the (mtp t) - buying_price t;
                loss_per_share = buying_price t - the (msl t)
            in if 0 < loss_per_share
               then t\<lparr>pl_ratio := Some (round2 (profit_per_share / loss_per_share))\<rparr>
               else t\<lparr>pl_ratio := None\<rparr>)
      else t\<lparr>pl_ratio := None\<rparr>)"

definition set_rate_difference :: "trade \<Rightarrow> trade" where
  "set_rate_difference t =
     (if dec_set (Trade_current_price t)
      then t\<lparr>rate_difference := Some (the (Trade_current_price t) - buying_price t)\<rparr>
      else t\<lparr>rate_difference := None\<rparr>)"

definition set_loss_recent :: "trade \<Rightarrow> trade" where
  "set_loss_recent t =
     (if dec_set (msl t) \<and> dec_set (Trade_current_price t)
      then (if the (Trade_current_price t) < buying_price t
            then t\<lparr>loss_recent :=
                     Some ((buying_price t - the (Trade_current_price t)) * of_int (quantity t))\<rparr>
            else t\<lparr>loss_recent := None\<rparr>)
      else t\<lparr>loss_recent := None\<rparr>)"

definition Trade_save :: "trade \<Rightarrow> trade" where
  "Trade_save t =
     set_loss_recent (set_rate_difference (set_pl_ratio (set_loss_expected (set_profit t))))"

text \<open>
  The values that the five steps of \<open>Trade.save\<close> write, as functions of the inputs
  (target, stop, buying price, quantity and the Stock's current price).
\<close>

definition val_profit_expected :: "rat option \<Rightarrow> rat \<Rightarrow> int \<Rightarrow> rat option" where
  "val_profit_expected m b q = (if dec_set m then Some ((the m - b) * of_int q) else None)"

definition val_profit_percent :: "rat option \<Rightarrow> rat \<Rightarrow> rat option" where
  "val_profit_percent m b =
     (if dec_set m \<and> b \<noteq> 0 then Some (round2 ((the m - b) / b * 100)) else None)"

definition val_loss_expected :: "rat option \<Rightarrow> rat \<Rightarrow> int \<Rightarrow> rat option" where
  "val_loss_expected s b q = (if dec_set s then Some ((b - the s) * of_int q) else None)"

definition val_pl_ratio :: "rat option \<Rightarrow> rat option \<Rightarrow> rat \<Rightarrow> rat option" where
  "val_pl_ratio m s b =
     (if dec_set m \<and> dec_set s \<and> b \<noteq> 0 \<and> 0 < b - the s
      then Some (round2 ((the m - b) / (b - the s))) else None)"

definition val_rate_difference :: "rat option \<Rightarrow> rat \<Rightarrow> rat option" where
  "val_rate_difference c b = (if dec_set c then Some (the c - b) else None)"

definition val_loss_recent :: "rat option \<Rightarrow> rat option \<Rightarrow> rat \<Rightarrow> int \<Rightarrow> rat option" where
  "val_loss_recent s c b q =
     (if dec_set s \<and> dec_set c \<and> the c < b then Some ((b - the c) * of_int q) else None)"

section \<open>Market data (services.py)\<close>

text \<open>
  The provider is reached through \<open>requests.get\<close>. The call either raises or returns a
  response; reading the body with \<open>response.json()\<close> either raises or returns the decoded
  value. Both are taken from the environment, as is the table \<open>COMPANY_NAMES\<close>, whose
  module is not part of the sources read here.

  The environment also holds what the libraries do with a Stock and with strings:
  \<open>db_save\<close> is \<open>stock.save()\<close> of the framework, which converts the attributes of the
  instance to the types of the columns and writes the row, or raises; \<open>float_of_str\<close> and
  \<open>int_of_str\<close> are the parsers behind \<open>float\<close> and \<open>int\<close>.
\<close>

record request =
  url :: string
  headers :: "(string \<times> string) list"
  timeout :: nat

record response =
  status_code :: int
  json :: "pyexn + pyval"

record env =
  http_get :: "request \<Rightarrow> pyexn + response"
  COMPANY_NAMES :: "string \<Rightarrow> string option"
  db_save :: "pyval stock \<Rightarrow> pyexn + rat option stock"
  float_of_str :: "string \<Rightarrow> rat option"
  int_of_str :: "string \<Rightarrow> int option"

text \<open>
  A \<open>char\<close> stands for a code point below 256; text with code points from 256 on is
  outside the model. \<open>str.upper\<close> on these code points: the letters a to z and the
  letters from 224 to 254 other than the division sign 247 move down by 32, the sharp s
  (223) becomes SS, everything else stays. The two code points whose upper case lies
  beyond 255 (181 and 255) are left as they are.
\<close>

definition upper_char :: "char \<Rightarrow> string" where
  "upper_char c =
     (let n = (of_char c :: nat)
      in if (97 \<le> n \<and> n \<le> 122) \<or> (224 \<le> n \<and> n \<le> 254 \<and> n \<noteq> 247)
         then [char_of (n - 32)]
         else if n = 223 then ''SS''
         else [c])"

definition upper :: "string \<Rightarrow> string" where
  "upper s = concat (map upper_char s)"

text \<open>Sequencing of steps that may raise.\<close>

fun bind_exn :: "pyexn + 'a \<Rightarrow> ('a \<Rightarrow> pyexn + 'b) \<Rightarrow> pyexn + 'b" where
  "bind_exn (Inl e) f = Inl e"
| "bind_exn (Inr v) f = f v"

text \<open>
  \<open>except requests.RequestException\<close>: an exception of that class (or of a subclass,
  such as a timeout) is caught and the function returns None; any other exception leaves
  the function. The line printed in the handler is not modelled. The symbol is a string;
  the empty one is the only string that counts as false.
\<close>

fun except_RequestException :: "pyexn + pyval \<Rightarrow> pyexn + pyval" where
  "except_RequestException (Inl e) =
     (if exn_cls e = RequestException then Inr PNone else Inl e)"
| "except_RequestException (Inr v) = Inr v"

definition psx_request :: "string \<Rightarrow> request" where
  "psx_request symb =
     \<lparr>url = ''https://psxterminal.com/api/ticks/REG/'' @ upper symb,
      headers = [(''User-Agent'', ''Mozilla/5.0''),
                 (''Accept'', ''application/json''),
                 (''Referer'', ''https://psxterminal.com/'')],
      timeout = 10\<rparr>"

definition company_name :: "env \<Rightarrow> string \<Rightarrow> string" where
  "company_name e symb =
     (case COMPANY_NAMES e (upper symb) of None \<Rightarrow> upper symb | Some n \<Rightarrow> n)"

definition quote_dict :: "env \<Rightarrow> string \<Rightarrow> pyval \<Rightarrow> pyexn + pyval" where
  "quote_dict e symb data =
     bind_exn (py_get data ''price'') (\<lambda>v_price.
     bind_exn (py_get data ''change'') (\<lambda>v_change.
     bind_exn (py_get data ''changePercent'') (\<lambda>v_change_percent.
     bind_exn (py_get data ''volume'') (\<lambda>v_volume.
     bind_exn (py_get data ''high'') (\<lambda>v_high.
     bind_exn (py_get data ''low'') (\<lambda>v_low.
       Inr (PDict [(''symbol'', PStr symb),
                   (''name'', PStr (company_name e symb)),
                   (''price'', v_price),
                   (''change'', v_change),
                   (''change_percent'', v_change_percent),
                   (''volume'', v_volume),
                   (''high'', v_high),
                   (''low'', v_low)])))))))"

definition fetch_body :: "env \<Rightarrow> string \<Rightarrow> pyexn + pyval" where
  "fetch_body e symb =
     bind_exn (http_get e (psx_request symb)) (\<lambda>resp.
       if status_code resp \<noteq> 200 then Inr PNone
       else
         bind_exn (json resp) (\<lambda>payload.
         bind_exn (py_get payload ''success'') (\<lambda>ok.
           if \<not> truthy ok then Inr PNone
           else
             bind_exn (py_get payload ''data'') (\<lambda>data.
               if \<not> truthy data then Inr PNone
               else
                 bind_exn (py_get data ''price'') (\<lambda>p.
                   if p = PNone then Inr PNone
                   else quote_dict e symb data)))))"

definition fetch_stock_from_psx :: "env \<Rightarrow> string \<Rightarrow> pyexn + pyval" where
  "fetch_stock_from_psx e symb =
     (if symb = [] then Inr PNone else except_RequestException (fetch_body e symb))"

section \<open>Batch refresh (views.py, refresh\_stock\_prices\_api)\<close>

text \<open>
  \<open>float(x)\<close> and \<open>int(x)\<close>. A number converts (\<open>int\<close> truncates towards zero), a bool
  counts as 0 or 1, a string is parsed by the interpreter (taken from the environment;
  a string it rejects raises ValueError), anything else raises TypeError.
\<close>

definition trunc_rat :: "rat \<Rightarrow> int" where
  "trunc_rat r = (if 0 \<le> r then \<lfloor>r\<rfloor> else \<lceil>r\<rceil>)"

fun py_float :: "env \<Rightarrow> pyval \<Rightarrow> pyexn + pyval" where
  "py_float e (PNum r) = Inr (PNum r)"
| "py_float e (PBool b) = Inr (PNum (if b then 1 else 0))"
| "py_float e (PStr s) =
     (case float_of_str e s of
        None \<Rightarrow> Inl (Raised ValueError ''could not convert string to float'')
      | Some r \<Rightarrow> Inr (PNum r))"
| "py_float e v = Inl (Raised TypeError ''float() argument must be a string or a real number'')"

fun py_int :: "env \<Rightarrow> pyval \<Rightarrow> pyexn + pyval" where
  "py_int e (PNum r) = Inr (PNum (of_int (trunc_rat r)))"
| "py_int e (PBool b) = Inr (PNum (if b then 1 else 0))"
| "py_int e (PStr s) =
     (case int_of_str e s of
        None \<Rightarrow> Inl (Raised ValueError ''invalid literal for int()'')
      | Some i \<Rightarrow> Inr (PNum (of_int i)))"
| "py_int e v = Inl (Raised TypeError ''int() argument must be a string or a real number'')"

text \<open>\<open>float(x) if x else None\<close> and \<open>int(x) if x else None\<close>.\<close>

definition float_or_none :: "env \<Rightarrow> pyval \<Rightarrow> pyexn + pyval" where
  "float_or_none e v = (if truthy v then py_float e v else Inr PNone)"

definition int_or_none :: "env \<Rightarrow> pyval \<Rightarrow> pyexn + pyval" where
  "int_or_none e v = (if truthy v then py_int e v else Inr PNone)"

text \<open>The dictionary appended to \<open>updated_stocks\<close>; its values are evaluated in order.\<close>

definition stock_entry :: "env \<Rightarrow> pyval stock \<Rightarrow> pyexn + pyval" where
  "stock_entry e s =
     bind_exn (float_or_none e (current_price s)) (\<lambda>v_price.
     bind_exn (float_or_none e (change s)) (\<lambda>v_change.
     bind_exn (float_or_none e (change_percent s)) (\<lambda>v_change_percent.
     bind_exn (int_or_none e (volume s)) (\<lambda>v_volume.
     bind_exn (float_or_none e (high s)) (\<lambda>v_high.
     bind_exn (float_or_none e (low s)) (\<lambda>v_low.
       Inr (PDict [(''id'', PNum (of_nat (pk s))),
                   (''symbol'', PStr (symbol s)),
                   (''current_price'', v_price),
                   (''change'', v_change),
                   (''change_percent'', v_change_percent),
                   (''volume'', v_volume),
                   (''high'', v_high),
                   (''low'', v_low)])))))))"

text \<open>The six assignments from the quote to the Stock instance.\<close>

definition assign_quote :: "pyval stock \<Rightarrow> pyval \<Rightarrow> pyexn + pyval stock" where
  "assign_quote s market_data =
     bind_exn (py_get market_data ''price'') (\<lambda>v_price.
     bind_exn (py_get market_data ''change'') (\<lambda>v_change.
     bind_exn (py_get market_data ''change_percent'') (\<lambda>v_change_percent.
     bind_exn (py_get market_data ''volume'') (\<lambda>v_volume.
     bind_exn (py_get market_data ''high'') (\<lambda>v_high.
     bind_exn (py_get market_data ''low'') (\<lambda>v_low.
       Inr (s\<lparr>current_price := v_price, change := v_change,
               change_percent := v_change_percent, volume := v_volume,
               high := v_high, low := v_low\<rparr>)))))))"

text \<open>
  What the body of the \<open>try\<close> does for one Stock: it appends an entry for a refreshed
  Stock (\<open>Updated\<close>: the instance, the row that \<open>stock.save()\<close> wrote, the entry), takes
  the \<open>else\<close> branch (\<open>NoData\<close>), or raises (\<open>Failed\<close>; the row is given when
  \<open>stock.save()\<close> had already returned). The row is the one the environment gives for
  the instance; the attributes of the instance stay as assigned, and the entry is built
  from them, not from the row.
\<close>

datatype outcome =
    Updated "pyval stock" "rat option stock" pyval
  | NoData
  | Failed "rat option stock option" pyexn

definition has_price :: "pyval \<Rightarrow> pyexn + bool" where
  "has_price market_data =
     (if truthy market_data
      then bind_exn (py_get market_data ''price'') (\<lambda>p. Inr (p \<noteq> PNone))
      else Inr False)"

definition try_refresh :: "env \<Rightarrow> pyval stock \<Rightarrow> outcome" where
  "try_refresh e s =
     (case fetch_stock_from_psx e (symbol s) of
        Inl ex \<Rightarrow> Failed None ex
      | Inr market_data \<Rightarrow>
          (case has_price market_data of
             Inl ex \<Rightarrow> Failed None ex
           | Inr b \<Rightarrow>
               if b then
                 (case assign_quote s market_data of
                    Inl ex \<Rightarrow> Failed None ex
                  | Inr s' \<Rightarrow>
                      (case db_save e s' of
                         Inl ex \<Rightarrow> Failed None ex
                       | Inr row \<Rightarrow>
                           (case stock_entry e s' of
                              Inl ex \<Rightarrow> Failed (Some row) ex
                            | Inr entry \<Rightarrow> Updated s' row entry)))
               else NoData))"

text \<open>
  The store maps a primary key to the row held for it. The loop works on one object per
  Stock, whose key no assignment changes, so a row is written under the key of the
  Stock the loop is at.
\<close>

record refresh_state =
  store :: "nat \<Rightarrow> rat option stock option"
  updated_stocks :: "pyval list"
  errors :: "pyval list"

definition error_entry :: "pyval stock \<Rightarrow> string \<Rightarrow> pyval" where
  "error_entry s reason = PDict [(''symbol'', PStr (symbol s)), (''error'', PStr reason)]"

definition persist ::
    "nat \<Rightarrow> rat option stock option \<Rightarrow> refresh_state \<Rightarrow> refresh_state" where
  "persist k ro st =
     (case ro of None \<Rightarrow> st | Some row \<Rightarrow> st\<lparr>store := (store st)(k \<mapsto> row)\<rparr>)"

definition refresh_step :: "env \<Rightarrow> refresh_state \<Rightarrow> pyval stock \<Rightarrow> refresh_state" where
  "refresh_step e st s =
     (case try_refresh e s of
        Updated s' row entry \<Rightarrow>
          (persist (pk s) (Some row) st)\<lparr>updated_stocks := updated_stocks st @ [entry]\<rparr>
      | NoData \<Rightarrow>
          st\<lparr>errors := errors st @ [error_entry s ''No data available from API'']\<rparr>
      | Failed ro ex \<Rightarrow>
          (persist (pk s) ro st)\<lparr>errors := errors st @ [error_entry s (exn_str ex)]\<rparr>)"

definition refresh_loop :: "env \<Rightarrow> pyval stock list \<Rightarrow> refresh_state \<Rightarrow> refresh_state" where
  "refresh_loop e stocks st = foldl (refresh_step e) st stocks"

record api_result =
  new_store :: "nat \<Rightarrow> rat option stock option"
  http_status :: nat
  body :: pyval

text \<open>
  The endpoint from the resolved selection on: an empty selection is answered with 404,
  otherwise the loop runs from empty lists and the summary is returned.
\<close>

definition refresh_stock_prices_api ::
    "env \<Rightarrow> (nat \<Rightarrow> rat option stock option) \<Rightarrow> pyval stock list \<Rightarrow> api_result" where
  "refresh_stock_prices_api e db stocks_to_refresh =
     (if stocks_to_refresh = []
      then \<lparr>new_store = db, http_status = 404,
            body = PDict [(''error'', PStr ''No stocks found'')]\<rparr>
      else
        (let st = refresh_loop e stocks_to_refresh
                    \<lparr>store = db, updated_stocks = [], errors = []\<rparr>
         in \<lparr>new_store = store st, http_status = 200,
             body = PDict [(''success'', PBool True),
                           (''updated'', PNum (of_nat (length (updated_stocks st)))),
                           (''stocks'', PList (updated_stocks st)),
                           (''errors'', PList (errors st))]\<rparr>))"

section \<open>Portfolio dashboard (views.py, portfolio\_dashboard)\<close>

text \<open>
  Ordering and matching are done by the database. Three of its choices are not fixed by
  the application and are taken as parameters: the collation of symbols, whether NULL
  sorts below every value (SQLite, MySQL) or above (PostgreSQL), and the comparison
  behind the \<open>iexact\<close> lookup. Rows with equal keys keep the order in which they were
  read.
\<close>

record dbms =
  collate_le :: "string \<Rightarrow> string \<Rightarrow> bool"
  nulls_smallest :: bool
  iexact :: "string \<Rightarrow> string \<Rightarrow> bool"

fun insert_by :: "('a \<Rightarrow> 'a \<Rightarrow> bool) \<Rightarrow> 'a \<Rightarrow> 'a list \<Rightarrow> 'a list" where
  "insert_by le x [] = [x]"
| "insert_by le x (y # ys) = (if le x y then x # y # ys else y # insert_by le x ys)"

definition sort_by_le :: "('a \<Rightarrow> 'a \<Rightarrow> bool) \<Rightarrow> 'a list \<Rightarrow> 'a list" where
  "sort_by_le le xs = foldr (insert_by le) xs []"

fun sql_le :: "bool \<Rightarrow> rat option \<Rightarrow> rat option \<Rightarrow> bool" where
  "sql_le ns None None = True"
| "sql_le ns None (Some y) = ns"
| "sql_le ns (Some x) None = (\<not> ns)"
| "sql_le ns (Some x) (Some y) = (x \<le> y)"

text \<open>
  The two annotations \<open>pl\<close>. The one of the profit view wraps the price in \<open>Coalesce\<close>
  with 0; the one of the loss view does not, and arithmetic on NULL is NULL.
\<close>

definition profit_pl :: "trade \<Rightarrow> rat option" where
  "profit_pl t =
     Some (of_int (quantity t) * (case current_price (stock t) of None \<Rightarrow> 0 | Some p \<Rightarrow> p)
           - of_int (quantity t) * buying_price t)"

definition loss_pl :: "trade \<Rightarrow> rat option" where
  "loss_pl t =
     (case current_price (stock t) of
        None \<Rightarrow> None
      | Some p \<Rightarrow> Some (of_int (quantity t) * p - of_int (quantity t) * buying_price t))"

text \<open>
  \<open>QuerySet.order_by\<close> for the field names the view passes: a leading minus sign in the
  name asks for descending order; \<open>pl\<close> is known only to an annotated query.
\<close>

definition order_by ::
    "dbms \<Rightarrow> (trade \<Rightarrow> rat option) option \<Rightarrow> string \<Rightarrow> trade list \<Rightarrow> pyexn + trade list" where
  "order_by d ann spec ts =
     (if spec = ''stock__symbol''
      then Inr (sort_by_le (\<lambda>a b. collate_le d (symbol (stock a)) (symbol (stock b))) ts)
      else if spec = ''-buy_date''
      then Inr (sort_by_le (\<lambda>a b. buy_date b \<le> buy_date a) ts)
      else if spec = ''pl'' \<or> spec = ''-pl''
      then (case ann of
              None \<Rightarrow> Inl (Raised OtherException ''FieldError'')
            | Some pl \<Rightarrow>
                Inr (sort_by_le
                      (if spec = ''pl''
                       then (\<lambda>a b. sql_le (nulls_smallest d) (pl a) (pl b))
                       else (\<lambda>a b. sql_le (nulls_smallest d) (pl b) (pl a))) ts))
      else Inl (Raised OtherException ''FieldError''))"

text \<open>
  The sort step. In the profit view the argument of \<open>order_by\<close> is the expression
  \<open>-"pl"\<close>, unary minus applied to a string, evaluated before the call.
\<close>

definition sort_trades :: "dbms \<Rightarrow> string \<Rightarrow> trade list \<Rightarrow> pyexn + trade list" where
  "sort_trades d skey ts =
     (if skey = ''symbol'' then order_by d None ''stock__symbol'' ts
      else if skey = ''date'' then order_by d None ''-buy_date'' ts
      else if skey = ''profit'' then
        bind_exn (py_neg (PStr ''pl'')) (\<lambda>k.
          case k of
            PStr f \<Rightarrow> order_by d (Some profit_pl) f ts
          | _ \<Rightarrow> Inl (Raised OtherException ''FieldError''))
      else if skey = ''loss'' then order_by d (Some loss_pl) ''pl'' ts
      else Inr ts)"

text \<open>
  \<open>str.strip\<close>: the code points below 256 that count as white space are 9 to 13, 28 to
  32, 133 and 160.
\<close>

definition is_space :: "char \<Rightarrow> bool" where
  "is_space c =
     (let n = (of_char c :: nat)
      in (9 \<le> n \<and> n \<le> 13) \<or> (28 \<le> n \<and> n \<le> 32) \<or> n = 133 \<or> n = 160)"

definition strip :: "string \<Rightarrow> string" where
  "strip s = rev (dropWhile is_space (rev (dropWhile is_space s)))"

record dash_request =
  req_user :: nat
  req_username :: string
  get_stock :: "string option"
  get_sort :: "string option"

record dash_context =
  holdings :: "trade list"
  total_cost :: rat
  total_value :: rat
  unrealized_pl :: rat
  pl_percentage :: rat
  active_trades :: nat
  user_name :: string
  sort_by :: string
  stock_filter :: string

definition sum_cost :: "trade list \<Rightarrow> rat" where
  "sum_cost ts = sum_list (map (\<lambda>t. of_int (quantity t) * buying_price t) ts)"

definition sum_value :: "trade list \<Rightarrow> rat" where
  "sum_value ts =
     sum_list (map (\<lambda>t. of_int (quantity t) * the (current_price (stock t)))
                   (filter (\<lambda>t. dec_set (current_price (stock t))) ts))"

definition build_context :: "dash_request \<Rightarrow> string \<Rightarrow> string \<Rightarrow> trade list \<Rightarrow> dash_context" where
  "build_context req skey flt ts =
     (let tc = sum_cost ts;
          tv = sum_value ts;
          total_unrealized_pl = tv - tc;
          pct = (if tc \<noteq> 0 then round2 (total_unrealized_pl / tc * 100) else 0)
      in \<lparr>holdings = ts, total_cost = tc, total_value = tv,
          unrealized_pl = total_unrealized_pl, pl_percentage = pct,
          active_trades = length ts, user_name = req_username req,
          sort_by = skey, stock_filter = flt\<rparr>)"

definition portfolio_dashboard :: "dbms \<Rightarrow> trade list \<Rightarrow> dash_request \<Rightarrow> pyexn + dash_context" where
  "portfolio_dashboard d all_trades req =
     (let trades = filter (\<lambda>t. user t = req_user req) all_trades;
          flt = strip (case get_stock req of None \<Rightarrow> [] | Some s \<Rightarrow> s);
          trades = (if flt \<noteq> []
                    then filter (\<lambda>t. iexact d (symbol (stock t)) flt) trades
                    else trades);
          skey = (case get_sort req of None \<Rightarrow> ''symbol'' | Some s \<Rightarrow> s)
      in bind_exn (sort_trades d skey trades)
           (\<lambda>sorted. Inr (build_context req skey flt sorted)))"

section \<open>Example data\<close>

definition mk_stock :: "nat \<Rightarrow> string \<Rightarrow> rat option \<Rightarrow> rat option stock" where
  "mk_stock i symb price =
     \<lparr>pk = i, symbol = symb, name = symb, current_price = price, change = None,
      change_percent = None, volume = None, high = None, low = None\<rparr>"

definition mk_trade ::
    "rat option stock \<Rightarrow> int \<Rightarrow> rat \<Rightarrow> rat option \<Rightarrow> rat option \<Rightarrow> trade" where
  "mk_trade s q b m l =
     \<lparr>user = 1, stock = s, quantity = q, buying_price = b, buy_date = 0, mtp = m, msl = l,
      profit_expected = None, profit_percent = None, loss_expected = None,
      loss_recent = None, pl_ratio = None, rate_difference = None, comments = [],
      max_profit = None, min_profit_loss = None\<rparr>"

text \<open>The worked example: 10 shares bought at 100, target 120, stop 90, quoted at 110.\<close>

definition example_trade :: trade where
  "example_trade = mk_trade (mk_stock 1 ''PSO'' (Some 110)) 10 100 (Some 120) (Some 90)"

text \<open>The same position on a Stock whose stored price is 0, and on one with no price.\<close>

definition zero_price_trade :: trade where
  "zero_price_trade = mk_trade (mk_stock 2 ''ZRO'' (Some 0)) 10 100 (Some 120) (Some 90)"

definition unquoted_trade :: trade where
  "unquoted_trade = mk_trade (mk_stock 3 ''NEW'' None) 5 100 None None"

text \<open>Three holdings of one share each: no quote, a loss of 50, a gain of 10.\<close>

definition hold_a :: trade where
  "hold_a = mk_trade (mk_stock 4 ''AAA'' None) 1 10 None None"

definition hold_b :: trade where
  "hold_b = mk_trade (mk_stock 5 ''BBB'' (Some 50)) 1 100 None None"

definition hold_c :: trade where
  "hold_c = mk_trade (mk_stock 6 ''CCC'' (Some 20)) 1 10 None None"

definition nulls_low_db :: dbms where
  "nulls_low_db = \<lparr>collate_le = (\<lambda>a b. True), nulls_smallest = True,
                    iexact = (\<lambda>a b. upper a = upper b)\<rparr>"

definition nulls_high_db :: dbms where
  "nulls_high_db = \<lparr>collate_le = (\<lambda>a b. True), nulls_smallest = False,
                     iexact = (\<lambda>a b. upper a = upper b)\<rparr>"

text \<open>
  The ranking term as the specification words it: quantity times the current price, or
  0 when there is none, minus quantity times the buying price.
\<close>

definition spec_ranking_term :: "trade \<Rightarrow> rat" where
  "spec_ranking_term t =
     of_int (quantity t) * (case current_price (stock t) of None \<Rightarrow> 0 | Some p \<Rightarrow> p)
     - of_int (quantity t) * buying_price t"

definition date_request :: dash_request where
  "date_request = \<lparr>req_user = 1, req_username = ''trader'', get_stock = None,
                    get_sort = Some ''date''\<rparr>"

text \<open>
  An example of the conversion on saving, for numbers and None: a price column takes the
  number rounded to two places, the volume column the number cut to an integer, None is
  stored as NULL, and any other value is refused.
\<close>

definition decimal_column :: "pyval \<Rightarrow> pyexn + rat option" where
  "decimal_column v =
     (case v of
        PNone \<Rightarrow> Inr None
      | PNum r \<Rightarrow> Inr (Some (round2 r))
      | _ \<Rightarrow> Inl (Raised OtherException ''ValidationError''))"

definition integer_column :: "pyval \<Rightarrow> pyexn + rat option" where
  "integer_column v =
     (case v of
        PNone \<Rightarrow> Inr None
      | PNum r \<Rightarrow> Inr (Some (of_int (trunc_rat r)))
      | _ \<Rightarrow> Inl (Raised OtherException ''ValidationError''))"

definition columns_of :: "pyval stock \<Rightarrow> pyexn + rat option stock" where
  "columns_of s =
     bind_exn (decimal_column (current_price s)) (\<lambda>c_price.
     bind_exn (decimal_column (change s)) (\<lambda>c_change.
     bind_exn (decimal_column (change_percent s)) (\<lambda>c_change_percent.
     bind_exn (integer_column (volume s)) (\<lambda>c_volume.
     bind_exn (decimal_column (high s)) (\<lambda>c_high.
     bind_exn (decimal_column (low s)) (\<lambda>c_low.
       Inr \<lparr>pk = pk s, symbol = symbol s, name = name s, current_price = c_price,
            change = c_change, change_percent = c_change_percent, volume = c_volume,
            high = c_high, low = c_low\<rparr>))))))"

definition mk_env :: "(request \<Rightarrow> pyexn + response) \<Rightarrow> env" where
  "mk_env g = \<lparr>http_get = g, COMPANY_NAMES = (\<lambda>s. None), db_save = columns_of,
               float_of_str = (\<lambda>s. None), int_of_str = (\<lambda>s. None)\<rparr>"

text \<open>A provider that answers 200 with a JSON array, and one that reports no success.\<close>

definition list_payload_env :: env where
  "list_payload_env = mk_env (\<lambda>r. Inr \<lparr>status_code = 200, json = Inr (PList [])\<rparr>)"

definition unsuccessful_env :: env where
  "unsuccessful_env =
     mk_env (\<lambda>r. Inr \<lparr>status_code = 200, json = Inr (PDict [(''success'', PBool False)])\<rparr>)"

text \<open>
  A provider that has no data for the symbol BAD (status 500) and answers every other
  symbol with price 10, change 0 and volume 0.
\<close>

definition good_payload :: pyval where
  "good_payload =
     PDict [(''success'', PBool True),
            (''data'', PDict [(''price'', PNum 10), (''change'', PNum 0), (''volume'', PNum 0)])]"

definition three_env :: env where
  "three_env =
     mk_env (\<lambda>r. if url r = ''https://psxterminal.com/api/ticks/REG/BAD''
                  then Inr \<lparr>status_code = 500, json = Inl (Raised ValueError ''no body'')\<rparr>
                  else Inr \<lparr>status_code = 200, json = Inr good_payload\<rparr>)"

definition mk_live :: "nat \<Rightarrow> string \<Rightarrow> pyval stock" where
  "mk_live i symb =
     \<lparr>pk = i, symbol = symb, name = symb, current_price = PNone, change = PNone,
      change_percent = PNone, volume = PNone, high = PNone, low = PNone\<rparr>"



text \<open>
  Providers for the other ways of having no data: the request times out, the body cannot
  be decoded, the body has no data entry, the data has no price. The last one answers
  with all six numbers equal to 0.
\<close>

definition timeout_env :: env where
  "timeout_env = mk_env (\<lambda>r. Inl (Raised RequestException ''Read timed out''))"

definition undecodable_env :: env where
  "undecodable_env =
     mk_env (\<lambda>r. Inr \<lparr>status_code = 200,
                         json = Inl (Raised RequestException ''Expecting value'')\<rparr>)"

definition no_data_env :: env where
  "no_data_env =
     mk_env (\<lambda>r. Inr \<lparr>status_code = 200, json = Inr (PDict [(''success'', PBool True)])\<rparr>)"

definition no_price_env :: env where
  "no_price_env =
     mk_env (\<lambda>r. Inr \<lparr>status_code = 200,
                         json = Inr (PDict [(''success'', PBool True),
                                            (''data'', PDict [(''volume'', PNum 5)])])\<rparr>)"

definition zero_data :: pyval where
  "zero_data =
     PDict [(''price'', PNum 0), (''change'', PNum 0), (''changePercent'', PNum 0),
            (''volume'', PNum 0), (''high'', PNum 0), (''low'', PNum 0)]"

definition zero_env :: env where
  "zero_env =
     mk_env (\<lambda>r. Inr \<lparr>status_code = 200,
                         json = Inr (PDict [(''success'', PBool True), (''data'', zero_data)])\<rparr>)"

definition zero_stock :: "pyval stock" where
  "zero_stock =
     \<lparr>pk = 7, symbol = ''ZZZ'', name = ''ZZZ'', current_price = PNum 0, change = PNum 0,
      change_percent = PNum 0, volume = PNum 0, high = PNum 0, low = PNum 0\<rparr>"

definition zero_entry :: pyval where
  "zero_entry =
     PDict [(''id'', PNum 7), (''symbol'', PStr ''ZZZ''), (''current_price'', PNone),
            (''change'', PNone), (''change_percent'', PNone), (''volume'', PNone),
            (''high'', PNone), (''low'', PNone)]"

definition zero_row :: "rat option stock" where
  "zero_row =
     \<lparr>pk = 7, symbol = ''ZZZ'', name = ''ZZZ'', current_price = Some 0, change = Some 0,
      change_percent = Some 0, volume = Some 0, high = Some 0, low = Some 0\<rparr>"




text \<open>
  A quote with price 0.004 and volume 0.5: the store rounds both to 0, the instance
  keeps them as sent.
\<close>

definition small_data :: pyval where
  "small_data = PDict [(''price'', PNum (1 / 250)), (''volume'', PNum (1 / 2))]"

definition small_env :: env where
  "small_env =
     mk_env (\<lambda>r. Inr \<lparr>status_code = 200,
                         json = Inr (PDict [(''success'', PBool True), (''data'', small_data)])\<rparr>)"

definition small_stock :: "pyval stock" where
  "small_stock =
     \<lparr>pk = 8, symbol = ''SML'', name = ''SML'', current_price = PNum (1 / 250),
      change = PNone, change_percent = PNone, volume = PNum (1 / 2), high = PNone,
      low = PNone\<rparr>"

definition small_row :: "rat option stock" where
  "small_row =
     \<lparr>pk = 8, symbol = ''SML'', name = ''SML'', current_price = Some 0, change = None,
      change_percent = None, volume = Some 0, high = None, low = None\<rparr>"

definition small_entry :: pyval where
  "small_entry =
     PDict [(''id'', PNum 8), (''symbol'', PStr ''SML''), (''current_price'', PNum (1 / 250)),
            (''change'', PNone), (''change_percent'', PNone), (''volume'', PNum 0),
            (''high'', PNone), (''low'', PNone)]"

text \<open>
  The worked example saved once before, at other prices: every derived field holds a
  value left over from then.
\<close>

definition stale_trade :: trade where
  "stale_trade =
     example_trade\<lparr>profit_expected := Some 1, profit_percent := Some 1,
                    loss_expected := Some 1, loss_recent := Some 300, pl_ratio := Some 1,
                    rate_difference := Some (- 30)\<rparr>"

section \<open>Auxiliary notions for the statements\<close>

text \<open>
  A decoded body has the shape of an object when it is a dict whose \<open>data\<close> entry is
  absent, a dict, or a value that counts as false.
\<close>

definition object_payload :: "pyval \<Rightarrow> bool" where
  "object_payload payload =
     (case payload of
        PDict kvs \<Rightarrow>
          (case map_of kvs ''data'' of
             None \<Rightarrow> True
           | Some (PDict dkvs) \<Rightarrow> True
           | Some v \<Rightarrow> \<not> truthy v)
      | _ \<Rightarrow> False)"

text \<open>
  The provider behaves as expected for a symbol when the request fails with a
  RequestException, or the status is not 200, or decoding the body fails with a
  RequestException, or the body decodes to a value of the shape of an object.
\<close>

definition provider_as_expected :: "env \<Rightarrow> string \<Rightarrow> bool" where
  "provider_as_expected e symb =
     (case http_get e (psx_request symb) of
        Inl ex \<Rightarrow> exn_cls ex = RequestException
      | Inr resp \<Rightarrow>
          status_code resp \<noteq> 200 \<or>
          (case json resp of
             Inl ex \<Rightarrow> exn_cls ex = RequestException
           | Inr payload \<Rightarrow> object_payload payload))"




section \<open>Trade valuation\<close>

subsection \<open>Each step of the recomputation as one update\<close>

lemma set_profit_eq:
  "set_profit t =
     t\<lparr>profit_expected := val_profit_expected (mtp t) (buying_price t) (quantity t),
       profit_percent := val_profit_percent (mtp t) (buying_price t)\<rparr>"
  by (simp add: set_profit_def val_profit_expected_def val_profit_percent_def Let_def)

lemma set_loss_expected_eq:
  "set_loss_expected t =
     t\<lparr>loss_expected := val_loss_expected (msl t) (buying_price t) (quantity t)\<rparr>"
  by (simp add: set_loss_expected_def val_loss_expected_def)

lemma set_pl_ratio_eq:
  "set_pl_ratio t = t\<lparr>pl_ratio := val_pl_ratio (mtp t) (msl t) (buying_price t)\<rparr>"
  by (simp add: set_pl_ratio_def val_pl_ratio_def Let_def)

lemma set_rate_difference_eq:
  "set_rate_difference t =
     t\<lparr>rate_difference := val_rate_difference (current_price (stock t)) (buying_price t)\<rparr>"
  by (simp add: set_rate_difference_def val_rate_difference_def Trade_current_price_def)

lemma set_loss_recent_eq:
  "set_loss_recent t =
     t\<lparr>loss_recent :=
         val_loss_recent (msl t) (current_price (stock t)) (buying_price t) (quantity t)\<rparr>"
  by (simp add: set_loss_recent_def val_loss_recent_def Trade_current_price_def)

lemma Trade_save_eq:
  "Trade_save t =
     t\<lparr>profit_expected := val_profit_expected (mtp t) (buying_price t) (quantity t),
       profit_percent := val_profit_percent (mtp t) (buying_price t),
       loss_expected := val_loss_expected (msl t) (buying_price t) (quantity t),
       pl_ratio := val_pl_ratio (mtp t) (msl t) (buying_price t),
       rate_difference := val_rate_difference (current_price (stock t)) (buying_price t),
       loss_recent :=
         val_loss_recent (msl t) (current_price (stock t)) (buying_price t) (quantity t)\<rparr>"
  by (simp add: Trade_save_def set_profit_eq set_loss_expected_eq set_pl_ratio_eq
      set_rate_difference_eq set_loss_recent_eq)

lemma round2_of_int: "round2 (of_int n) = of_int n"
proof -
  have "\<lfloor>(of_int n :: rat) * 100\<rfloor> = n * 100"
    by (metis floor_of_int of_int_mult of_int_numeral)
  then show ?thesis
    by (simp add: round2_def round_half_even_def Let_def)
qed

lemma round2_examples: "round2 10 = 10" "round2 20 = 20" "round2 2 = 2"
  using round2_of_int[of 10] round2_of_int[of 20] round2_of_int[of 2]
  by simp_all

lemmas property_defs = Trade_total_cost_def Trade_current_value_def Trade_unrealized_pl_def
  Trade_pl_percent_def Trade_current_price_def

lemmas value_defs = val_profit_expected_def val_profit_percent_def val_loss_expected_def
  val_pl_ratio_def val_rate_difference_def val_loss_recent_def

subsection \<open>The worked example\<close>

text \<open>
  Claim C1. For every Trade with quantity 10, buying price 100, target 120 and stop 90
  whose Stock is quoted at 110, whatever its derived fields held before, saving the Trade
  and reading its derived fields gives total cost 1000, current value 1100, unrealized
  profit 100, profit percentage 10, expected profit 200, expected profit percentage 20,
  expected loss 100, profit/loss ratio 2, rate difference 10, and no recent loss.
\<close>

theorem example_valuation:
  assumes "quantity t = 10" and "buying_price t = 100" and "mtp t = Some 120"
    and "msl t = Some 90" and "current_price (stock t) = Some 110"
  shows "Trade_total_cost (Trade_save t) = 1000
   \<and> Trade_current_value (Trade_save t) = Some 1100
   \<and> Trade_unrealized_pl (Trade_save t) = Some 100
   \<and> Trade_pl_percent (Trade_save t) = 10
   \<and> profit_expected (Trade_save t) = Some 200
   \<and> profit_percent (Trade_save t) = Some 20
   \<and> loss_expected (Trade_save t) = Some 100
   \<and> pl_ratio (Trade_save t) = Some 2
   \<and> rate_difference (Trade_save t) = Some 10
   \<and> loss_recent (Trade_save t) = None"
  using assms
  by (simp add: Trade_save_eq property_defs value_defs round2_examples)

theorem example_valuation_witness:
  "quantity stale_trade = 10 \<and> buying_price stale_trade = 100
   \<and> mtp stale_trade = Some 120 \<and> msl stale_trade = Some 90
   \<and> current_price (stock stale_trade) = Some 110
   \<and> loss_recent stale_trade = Some 300 \<and> rate_difference stale_trade = Some (- 30)
   \<and> Trade_total_cost (Trade_save stale_trade) = 1000
   \<and> Trade_current_value (Trade_save stale_trade) = Some 1100
   \<and> Trade_unrealized_pl (Trade_save stale_trade) = Some 100
   \<and> Trade_pl_percent (Trade_save stale_trade) = 10
   \<and> profit_expected (Trade_save stale_trade) = Some 200
   \<and> profit_percent (Trade_save stale_trade) = Some 20
   \<and> loss_expected (Trade_save stale_trade) = Some 100
   \<and> pl_ratio (Trade_save stale_trade) = Some 2
   \<and> rate_difference (Trade_save stale_trade) = Some 10
   \<and> loss_recent (Trade_save stale_trade) = None"
proof -
  have h: "quantity stale_trade = 10" "buying_price stale_trade = 100"
    "mtp stale_trade = Some 120" "msl stale_trade = Some 90"
    "current_price (stock stale_trade) = Some 110"
    by (simp_all add: stale_trade_def example_trade_def mk_trade_def mk_stock_def)
  have old: "loss_recent stale_trade = Some 300" "rate_difference stale_trade = Some (- 30)"
    by (simp_all add: stale_trade_def)
  from example_valuation[OF h] h old show ?thesis
    by simp
qed

subsection \<open>Current value and rate difference\<close>

text \<open>
  A stored price of 0 counts as no price: on such a Stock the current value and, after
  saving, the rate difference are undefined, although the price is present.
\<close>

theorem zero_price_counterexample:
  "current_price (stock zero_price_trade) = Some 0
   \<and> Trade_current_value zero_price_trade \<noteq> Some (of_int (quantity zero_price_trade) * 0)
   \<and> rate_difference (Trade_save zero_price_trade) \<noteq> Some (0 - buying_price zero_price_trade)"
  by (simp add: Trade_save_eq property_defs value_defs zero_price_trade_def mk_trade_def
      mk_stock_def)

text \<open>
  Claim C6, amended. For every Trade whose Stock has a current price that is present and
  not 0, the current value is quantity times that price and, after saving, the rate
  difference is that price minus the buying price; both are undefined when the price is
  absent or equal to 0.
\<close>

theorem current_value_rate_difference:
  "(current_price (stock t) = Some p \<and> p \<noteq> 0 \<longrightarrow>
      Trade_current_value t = Some (of_int (quantity t) * p)
      \<and> rate_difference (Trade_save t) = Some (p - buying_price t))
   \<and> (current_price (stock t) = None \<or> current_price (stock t) = Some 0 \<longrightarrow>
      Trade_current_value t = None \<and> rate_difference (Trade_save t) = None)"
  by (auto simp add: Trade_save_eq property_defs value_defs)

theorem current_value_rate_difference_witness:
  "current_price (stock example_trade) = Some 110 \<and> (110::rat) \<noteq> 0
   \<and> Trade_current_value example_trade = Some 1100
   \<and> rate_difference (Trade_save example_trade) = Some 10
   \<and> current_price (stock unquoted_trade) = None
   \<and> Trade_current_value unquoted_trade = None
   \<and> rate_difference (Trade_save unquoted_trade) = None"
  using current_value_rate_difference[of example_trade 110]
    current_value_rate_difference[of unquoted_trade 0]
  by (simp add: example_trade_def unquoted_trade_def mk_trade_def mk_stock_def)

subsection \<open>Idempotence and frame\<close>

text \<open>
  Claim C8. Recomputation is idempotent: saving a Trade twice with unchanged inputs
  (quantity, buying price, target, stop and the Stock's current price) leaves it exactly
  as saving it once does, so every derived value is the same.
\<close>

theorem Trade_save_idempotent: "Trade_save (Trade_save t) = Trade_save t"
  by (simp add: Trade_save_eq)

text \<open>
  Claim C9. The recomputation writes only the six derived fields: quantity, buying
  price, buy date, target, stop, comments, max\_profit and min\_profit\_loss (and the
  user and the Stock) are unchanged, and the saved Trade is the given one with the six
  derived fields replaced.
\<close>

theorem Trade_save_frame:
  "quantity (Trade_save t) = quantity t
   \<and> buying_price (Trade_save t) = buying_price t
   \<and> buy_date (Trade_save t) = buy_date t
   \<and> mtp (Trade_save t) = mtp t
   \<and> msl (Trade_save t) = msl t
   \<and> comments (Trade_save t) = comments t
   \<and> max_profit (Trade_save t) = max_profit t
   \<and> min_profit_loss (Trade_save t) = min_profit_loss t
   \<and> user (Trade_save t) = user t
   \<and> stock (Trade_save t) = stock t
   \<and> Trade_save t =
       t\<lparr>profit_expected := profit_expected (Trade_save t),
         profit_percent := profit_percent (Trade_save t),
         loss_expected := loss_expected (Trade_save t),
         pl_ratio := pl_ratio (Trade_save t),
         rate_difference := rate_difference (Trade_save t),
         loss_recent := loss_recent (Trade_save t)\<rparr>"
  by (simp add: Trade_save_eq)

section \<open>Market data\<close>

lemma quote_dict_dict: "\<exists>q. quote_dict e symb (PDict dkvs) = Inr (PDict q)"
  by (simp add: quote_dict_def)

lemma fetch_body_object:
  assumes "http_get e (psx_request symb) = Inr resp" and "status_code resp = 200"
    and "json resp = Inr payload" and "object_payload payload"
  shows "fetch_body e symb = Inr PNone \<or> (\<exists>q. fetch_body e symb = Inr (PDict q))"
proof -
  from assms(4) obtain kvs where p: "payload = PDict kvs"
    by (cases payload) (simp_all add: object_payload_def)
  show ?thesis
  proof (cases "map_of kvs ''data''")
    case None
    then show ?thesis using assms(1-3) p by (simp add: fetch_body_def)
  next
    case (Some data)
    show ?thesis
    proof (cases data)
      case (PDict dkvs)
      then show ?thesis using assms(1-3) p Some quote_dict_dict[of e symb dkvs]
        by (auto simp add: fetch_body_def)
    qed (use assms Some p in \<open>auto simp add: fetch_body_def object_payload_def\<close>)
  qed
qed

lemma fetch_returns:
  assumes "provider_as_expected e symb"
  shows "fetch_stock_from_psx e symb = Inr PNone
     \<or> (\<exists>q. fetch_stock_from_psx e symb = Inr (PDict q))"
proof (cases "symb = []")
  case True
  then show ?thesis by (simp add: fetch_stock_from_psx_def)
next
  case ne: False
  show ?thesis
  proof (cases "http_get e (psx_request symb)")
    case (Inl ex)
    with assms ne show ?thesis
      by (simp add: provider_as_expected_def fetch_stock_from_psx_def fetch_body_def)
  next
    case (Inr resp)
    show ?thesis
    proof (cases "status_code resp = 200")
      case False
      with Inr ne show ?thesis by (simp add: fetch_stock_from_psx_def fetch_body_def)
    next
      case True
      show ?thesis
      proof (cases "json resp")
        case (Inl ex)
        with assms ne Inr True show ?thesis
          by (simp add: provider_as_expected_def fetch_stock_from_psx_def fetch_body_def)
      next
        case r: (Inr payload)
        with assms Inr True have "object_payload payload"
          by (simp add: provider_as_expected_def)
        from fetch_body_object[OF Inr True r this]
        show ?thesis using ne
          by (auto simp add: fetch_stock_from_psx_def)
      qed
    qed
  qed
qed

lemma fetch_no_data_modes:
  "symb = [] \<Longrightarrow> fetch_stock_from_psx e symb = Inr PNone"
  "http_get e (psx_request symb) = Inl ex \<Longrightarrow> exn_cls ex = RequestException
     \<Longrightarrow> fetch_stock_from_psx e symb = Inr PNone"
  "http_get e (psx_request symb) = Inr resp \<Longrightarrow> status_code resp \<noteq> 200
     \<Longrightarrow> fetch_stock_from_psx e symb = Inr PNone"
  "http_get e (psx_request symb) = Inr resp \<Longrightarrow> json resp = Inl ex
     \<Longrightarrow> exn_cls ex = RequestException \<Longrightarrow> fetch_stock_from_psx e symb = Inr PNone"
  "http_get e (psx_request symb) = Inr resp \<Longrightarrow> json resp = Inr (PDict kvs)
     \<Longrightarrow> py_get (PDict kvs) ''success'' = Inr ok \<Longrightarrow> \<not> truthy ok
     \<Longrightarrow> fetch_stock_from_psx e symb = Inr PNone"
  "http_get e (psx_request symb) = Inr resp \<Longrightarrow> json resp = Inr (PDict kvs)
     \<Longrightarrow> py_get (PDict kvs) ''data'' = Inr data \<Longrightarrow> \<not> truthy data
     \<Longrightarrow> fetch_stock_from_psx e symb = Inr PNone"
  "http_get e (psx_request symb) = Inr resp \<Longrightarrow> json resp = Inr (PDict kvs)
     \<Longrightarrow> py_get (PDict kvs) ''data'' = Inr (PDict dkvs)
     \<Longrightarrow> py_get (PDict dkvs) ''price'' = Inr PNone
     \<Longrightarrow> fetch_stock_from_psx e symb = Inr PNone"
  by (auto simp add: fetch_stock_from_psx_def fetch_body_def split: option.splits)

text \<open>
  A body that is valid JSON but not an object is a malformed payload, and the fetch does
  not turn it into "no data": only RequestException is caught, and looking up the
  \<open>get\<close> method on a list raises AttributeError, which leaves the function.
\<close>

theorem non_object_payload_raises:
  "fetch_stock_from_psx list_payload_env ''PSO''
     = Inl (Raised AttributeError ''object has no attribute get'')"
  by (simp add: fetch_stock_from_psx_def fetch_body_def list_payload_env_def mk_env_def)

text \<open>
  Claim C4, amended. The request is sent with a timeout of 10. For every symbol, when the
  provider behaves as expected (the request fails with a RequestException, or the status
  is not 200, or decoding fails with a RequestException, or the body decodes to a value
  of the shape of an object), the fetch returns either None or a quote dictionary and
  raises nothing. Each of these yields None: an empty symbol, a RequestException from the
  request (network error, timeout), a status other than 200, a RequestException from
  decoding, a success flag that counts as false, a data entry that counts as false, and
  a data object whose price is missing or null.
\<close>

theorem fetch_expected_failures:
  "timeout (psx_request symb) = 10
   \<and> (provider_as_expected e symb \<longrightarrow>
        fetch_stock_from_psx e symb = Inr PNone
        \<or> (\<exists>q. fetch_stock_from_psx e symb = Inr (PDict q)))
   \<and> (symb = [] \<longrightarrow> fetch_stock_from_psx e symb = Inr PNone)
   \<and> (http_get e (psx_request symb) = Inl ex \<and> exn_cls ex = RequestException
        \<longrightarrow> fetch_stock_from_psx e symb = Inr PNone)
   \<and> (http_get e (psx_request symb) = Inr resp \<and> status_code resp \<noteq> 200
        \<longrightarrow> fetch_stock_from_psx e symb = Inr PNone)
   \<and> (http_get e (psx_request symb) = Inr resp \<and> json resp = Inl ex
        \<and> exn_cls ex = RequestException
        \<longrightarrow> fetch_stock_from_psx e symb = Inr PNone)
   \<and> (http_get e (psx_request symb) = Inr resp \<and> json resp = Inr (PDict kvs)
        \<and> py_get (PDict kvs) ''success'' = Inr ok \<and> \<not> truthy ok
        \<longrightarrow> fetch_stock_from_psx e symb = Inr PNone)
   \<and> (http_get e (psx_request symb) = Inr resp \<and> json resp = Inr (PDict kvs)
        \<and> py_get (PDict kvs) ''data'' = Inr data \<and> \<not> truthy data
        \<longrightarrow> fetch_stock_from_psx e symb = Inr PNone)
   \<and> (http_get e (psx_request symb) = Inr resp \<and> json resp = Inr (PDict kvs)
        \<and> py_get (PDict kvs) ''data'' = Inr (PDict dkvs)
        \<and> py_get (PDict dkvs) ''price'' = Inr PNone
        \<longrightarrow> fetch_stock_from_psx e symb = Inr PNone)"
  using fetch_returns[of e symb] fetch_no_data_modes(1)[of symb e]
    fetch_no_data_modes(2)[of e symb ex] fetch_no_data_modes(3)[of e symb resp]
    fetch_no_data_modes(4)[of e symb resp ex] fetch_no_data_modes(5)[of e symb resp kvs ok]
    fetch_no_data_modes(6)[of e symb resp kvs data]
    fetch_no_data_modes(7)[of e symb resp kvs dkvs]
  by (simp add: psx_request_def)

lemma upper_examples:
  "upper ''AAA'' = ''AAA''" "upper ''BAD'' = ''BAD''" "upper ''CCC'' = ''CCC''"
  "upper ''ZZZ'' = ''ZZZ''" "upper ''PSO'' = ''PSO''"
  by (simp_all add: upper_def upper_char_def Let_def)

theorem fetch_expected_failures_witness:
  "provider_as_expected unsuccessful_env ''PSO''
   \<and> fetch_stock_from_psx unsuccessful_env ''PSO'' = Inr PNone
   \<and> fetch_stock_from_psx unsuccessful_env [] = Inr PNone
   \<and> http_get timeout_env (psx_request ''PSO'')
        = Inl (Raised RequestException ''Read timed out'')
   \<and> fetch_stock_from_psx timeout_env ''PSO'' = Inr PNone
   \<and> http_get three_env (psx_request ''BAD'')
        = Inr \<lparr>status_code = 500, json = Inl (Raised ValueError ''no body'')\<rparr>
   \<and> fetch_stock_from_psx three_env ''BAD'' = Inr PNone
   \<and> http_get undecodable_env (psx_request ''PSO'')
        = Inr \<lparr>status_code = 200, json = Inl (Raised RequestException ''Expecting value'')\<rparr>
   \<and> fetch_stock_from_psx undecodable_env ''PSO'' = Inr PNone
   \<and> http_get no_data_env (psx_request ''PSO'')
        = Inr \<lparr>status_code = 200, json = Inr (PDict [(''success'', PBool True)])\<rparr>
   \<and> py_get (PDict [(''success'', PBool True)]) ''data'' = Inr PNone
   \<and> fetch_stock_from_psx no_data_env ''PSO'' = Inr PNone
   \<and> http_get no_price_env (psx_request ''PSO'')
        = Inr \<lparr>status_code = 200,
               json = Inr (PDict [(''success'', PBool True),
                                  (''data'', PDict [(''volume'', PNum 5)])])\<rparr>
   \<and> py_get (PDict [(''volume'', PNum 5)]) ''price'' = Inr PNone
   \<and> fetch_stock_from_psx no_price_env ''PSO'' = Inr PNone"
proof -
  let ?u = "\<lparr>status_code = 200, json = Inr (PDict [(''success'', PBool False)])\<rparr>"
  let ?b = "\<lparr>status_code = 500, json = Inl (Raised ValueError ''no body'')\<rparr>"
  let ?d = "\<lparr>status_code = 200, json = Inl (Raised RequestException ''Expecting value'')\<rparr>"
  let ?n = "\<lparr>status_code = 200, json = Inr (PDict [(''success'', PBool True)])\<rparr>"
  let ?p = "\<lparr>status_code = 200,
               json = Inr (PDict [(''success'', PBool True),
                                  (''data'', PDict [(''volume'', PNum 5)])])\<rparr>"
  have g: "http_get unsuccessful_env r = Inr ?u"
    "http_get timeout_env r = Inl (Raised RequestException ''Read timed out'')"
    "http_get undecodable_env r = Inr ?d"
    "http_get no_data_env r = Inr ?n"
    "http_get no_price_env r = Inr ?p" for r
    by (simp_all add: unsuccessful_env_def timeout_env_def undecodable_env_def
        no_data_env_def no_price_env_def mk_env_def)
  have b: "http_get three_env (psx_request ''BAD'') = Inr ?b"
    by (simp add: three_env_def mk_env_def psx_request_def upper_examples)
  have pe: "provider_as_expected unsuccessful_env ''PSO''"
    by (simp add: provider_as_expected_def object_payload_def g)
  note t = fetch_expected_failures
  from t[of "''PSO''" unsuccessful_env undefined ?u "[(''success'', PBool False)]"
          "PBool False" undefined undefined]
    t[of "[]" unsuccessful_env]
    t[of "''PSO''" timeout_env "Raised RequestException ''Read timed out''"]
    t[of "''BAD''" three_env undefined ?b]
    t[of "''PSO''" undecodable_env "Raised RequestException ''Expecting value''" ?d]
    t[of "''PSO''" no_data_env undefined ?n "[(''success'', PBool True)]" undefined PNone]
    t[of "''PSO''" no_price_env undefined ?p
        "[(''success'', PBool True), (''data'', PDict [(''volume'', PNum 5)])]"
        undefined undefined "[(''volume'', PNum 5)]"]
  show ?thesis
    using pe b by (simp add: g)
qed

section \<open>Batch refresh\<close>

lemma bind_exn_Inr: "bind_exn m f = Inr y \<longleftrightarrow> (\<exists>x. m = Inr x \<and> f x = Inr y)"
  by (cases m) simp_all

subsection \<open>The outcome for one Stock, case by case\<close>




lemma try_refresh_updated:
  "fetch_stock_from_psx e (symbol s) = Inr md \<Longrightarrow> truthy md
   \<Longrightarrow> py_get md ''price'' = Inr p \<Longrightarrow> p \<noteq> PNone
   \<Longrightarrow> assign_quote s md = Inr s' \<Longrightarrow> db_save e s' = Inr row
   \<Longrightarrow> stock_entry e s' = Inr entry
   \<Longrightarrow> try_refresh e s = Updated s' row entry"
  by (simp add: try_refresh_def has_price_def)

lemma try_refresh_Updated_entry:
  "try_refresh e s = Updated s' row entry \<Longrightarrow> stock_entry e s' = Inr entry"
  by (auto simp add: try_refresh_def split: sum.splits if_splits)

lemma try_refresh_Updated_source:
  "try_refresh e s = Updated s' row entry \<Longrightarrow>
     \<exists>md. fetch_stock_from_psx e (symbol s) = Inr md \<and> assign_quote s md = Inr s'
       \<and> db_save e s' = Inr row"
  by (auto simp add: try_refresh_def split: sum.splits if_splits)


subsection \<open>The loop\<close>













subsection \<open>A batch of five\<close>

lemma upper_batch:
  "upper ''LST'' = ''LST''" "upper ''ERR'' = ''ERR''" "upper ''SML'' = ''SML''"
  by (simp_all add: upper_def upper_char_def Let_def)





lemma round2_zero: "round2 0 = 0" "round2 10 = 10"
  using round2_of_int[of 0] round2_of_int[of 10] by simp_all




lemma live_fields: "pk (mk_live i symb) = i" "symbol (mk_live i symb) = symb"
  by (simp_all add: mk_live_def)


subsection \<open>Zeros in the response\<close>

lemma float_or_none_null:
  "float_or_none e v = Inr w \<Longrightarrow> w = PNone \<longleftrightarrow> \<not> truthy v"
  by (cases v) (auto simp add: float_or_none_def split: option.splits if_splits)

lemma int_or_none_null:
  "int_or_none e v = Inr w \<Longrightarrow> w = PNone \<longleftrightarrow> \<not> truthy v"
  by (cases v) (auto simp add: int_or_none_def split: option.splits if_splits)

lemma stock_entry_fields:
  assumes "stock_entry e s = Inr entry"
  shows "\<exists>v1 v2 v3 v4 v5 v6.
      float_or_none e (current_price s) = Inr v1 \<and> py_get entry ''current_price'' = Inr v1
    \<and> float_or_none e (change s) = Inr v2 \<and> py_get entry ''change'' = Inr v2
    \<and> float_or_none e (change_percent s) = Inr v3 \<and> py_get entry ''change_percent'' = Inr v3
    \<and> int_or_none e (volume s) = Inr v4 \<and> py_get entry ''volume'' = Inr v4
    \<and> float_or_none e (high s) = Inr v5 \<and> py_get entry ''high'' = Inr v5
    \<and> float_or_none e (low s) = Inr v6 \<and> py_get entry ''low'' = Inr v6"
  using assms by (auto simp add: stock_entry_def bind_exn_Inr)

lemma stock_entry_null:
  assumes "stock_entry e s = Inr entry"
  shows "(py_get entry ''current_price'' = Inr PNone \<longleftrightarrow> \<not> truthy (current_price s))
    \<and> (py_get entry ''change'' = Inr PNone \<longleftrightarrow> \<not> truthy (change s))
    \<and> (py_get entry ''change_percent'' = Inr PNone \<longleftrightarrow> \<not> truthy (change_percent s))
    \<and> (py_get entry ''volume'' = Inr PNone \<longleftrightarrow> \<not> truthy (volume s))
    \<and> (py_get entry ''high'' = Inr PNone \<longleftrightarrow> \<not> truthy (high s))
    \<and> (py_get entry ''low'' = Inr PNone \<longleftrightarrow> \<not> truthy (low s))"
proof -
  from stock_entry_fields[OF assms] obtain v1 v2 v3 v4 v5 v6 where
    f: "float_or_none e (current_price s) = Inr v1" "py_get entry ''current_price'' = Inr v1"
      "float_or_none e (change s) = Inr v2" "py_get entry ''change'' = Inr v2"
      "float_or_none e (change_percent s) = Inr v3" "py_get entry ''change_percent'' = Inr v3"
      "int_or_none e (volume s) = Inr v4" "py_get entry ''volume'' = Inr v4"
      "float_or_none e (high s) = Inr v5" "py_get entry ''high'' = Inr v5"
      "float_or_none e (low s) = Inr v6" "py_get entry ''low'' = Inr v6"
    by blast
  show ?thesis
    using float_or_none_null[OF f(1)] float_or_none_null[OF f(3)] float_or_none_null[OF f(5)]
      int_or_none_null[OF f(7)] float_or_none_null[OF f(9)] float_or_none_null[OF f(11)]
    by (simp add: f(2,4,6,8,10,12))
qed

lemma fetch_small:
  "fetch_stock_from_psx small_env ''SML'' =
     Inr (PDict [(''symbol'', PStr ''SML''), (''name'', PStr ''SML''),
                 (''price'', PNum (1 / 250)), (''change'', PNone), (''change_percent'', PNone),
                 (''volume'', PNum (1 / 2)), (''high'', PNone), (''low'', PNone)])"
  by (simp add: fetch_stock_from_psx_def fetch_body_def small_env_def mk_env_def
      psx_request_def upper_batch small_data_def quote_dict_def company_name_def)

lemma round2_small: "round2 (1 / 250) = 0"
proof -
  have "\<lfloor>(2 / 5 :: rat)\<rfloor> = 0"
    by (rule floor_unique) simp_all
  then show ?thesis
    by (simp add: round2_def round_half_even_def Let_def)
qed

lemma trunc_half: "trunc_rat (1 / 2) = 0"
proof -
  have "\<lfloor>(1 / 2 :: rat)\<rfloor> = 0"
    by (rule floor_unique) simp_all
  then show ?thesis
    by (simp add: trunc_rat_def)
qed

lemma try_small:
  "try_refresh small_env (mk_live 8 ''SML'') = Updated small_stock small_row small_entry"
proof -
  have a: "assign_quote (mk_live 8 ''SML'')
       (PDict [(''symbol'', PStr ''SML''), (''name'', PStr ''SML''),
               (''price'', PNum (1 / 250)), (''change'', PNone), (''change_percent'', PNone),
               (''volume'', PNum (1 / 2)), (''high'', PNone), (''low'', PNone)])
       = Inr small_stock"
    by (simp add: assign_quote_def mk_live_def small_stock_def)
  have s: "db_save small_env small_stock = Inr small_row"
    by (simp add: small_env_def mk_env_def columns_of_def decimal_column_def
        integer_column_def small_stock_def small_row_def round2_small trunc_half)
  have en: "stock_entry small_env small_stock = Inr small_entry"
    by (simp add: stock_entry_def float_or_none_def int_or_none_def small_stock_def
        small_entry_def trunc_half)
  show ?thesis
    by (rule try_refresh_updated[OF _ _ _ _ a s en, where p = "PNum (1 / 250)"])
       (simp_all add: live_fields fetch_small)
qed

text \<open>
  The value tested for the response is the attribute of the instance, not the column.
  For a quote with price 0.004 and volume 0.5 the row written has price 0 and volume 0,
  and the entry of that Stock holds 0.004 and 0, not null.
\<close>

theorem stored_zero_not_null:
  "new_store (refresh_stock_prices_api small_env (\<lambda>k. None) [mk_live 8 ''SML'']) 8
     = Some small_row
   \<and> body (refresh_stock_prices_api small_env (\<lambda>k. None) [mk_live 8 ''SML''])
     = PDict [(''success'', PBool True), (''updated'', PNum 1),
              (''stocks'', PList [small_entry]), (''errors'', PList [])]
   \<and> current_price small_row = Some 0
   \<and> py_get small_entry ''current_price'' = Inr (PNum (1 / 250))
   \<and> py_get small_entry ''current_price'' \<noteq> Inr PNone
   \<and> volume small_row = Some 0
   \<and> py_get small_entry ''volume'' = Inr (PNum 0)
   \<and> py_get small_entry ''volume'' \<noteq> Inr PNone"
  by (simp add: refresh_stock_prices_api_def Let_def refresh_loop_def refresh_step_def
      try_small persist_def live_fields small_row_def small_entry_def)

text \<open>
  Claim C10, amended. In the result of a batch refresh, the entry of a refreshed Stock
  (the instance holds the values assigned from the fetched quote, and the row is what
  its save wrote) gives null for each of current\_price, change, change\_percent, volume,
  high and low whose value on the instance is the number 0; more precisely a field of
  the entry is null exactly when the value on the instance counts as false. The value
  held in the column after saving is not what is tested.
\<close>

theorem zero_fields_serialized_null:
  assumes "try_refresh e s = Updated s' row entry"
  shows "(\<exists>md. fetch_stock_from_psx e (symbol s) = Inr md \<and> assign_quote s md = Inr s'
            \<and> db_save e s' = Inr row)
    \<and> (current_price s' = PNum 0 \<longrightarrow> py_get entry ''current_price'' = Inr PNone)
    \<and> (change s' = PNum 0 \<longrightarrow> py_get entry ''change'' = Inr PNone)
    \<and> (change_percent s' = PNum 0 \<longrightarrow> py_get entry ''change_percent'' = Inr PNone)
    \<and> (volume s' = PNum 0 \<longrightarrow> py_get entry ''volume'' = Inr PNone)
    \<and> (high s' = PNum 0 \<longrightarrow> py_get entry ''high'' = Inr PNone)
    \<and> (low s' = PNum 0 \<longrightarrow> py_get entry ''low'' = Inr PNone)
    \<and> (py_get entry ''current_price'' = Inr PNone \<longleftrightarrow> \<not> truthy (current_price s'))
    \<and> (py_get entry ''change'' = Inr PNone \<longleftrightarrow> \<not> truthy (change s'))
    \<and> (py_get entry ''change_percent'' = Inr PNone \<longleftrightarrow> \<not> truthy (change_percent s'))
    \<and> (py_get entry ''volume'' = Inr PNone \<longleftrightarrow> \<not> truthy (volume s'))
    \<and> (py_get entry ''high'' = Inr PNone \<longleftrightarrow> \<not> truthy (high s'))
    \<and> (py_get entry ''low'' = Inr PNone \<longleftrightarrow> \<not> truthy (low s'))"
proof -
  from assms have "stock_entry e s' = Inr entry"
    by (rule try_refresh_Updated_entry)
  from stock_entry_null[OF this] try_refresh_Updated_source[OF assms] show ?thesis
    by auto
qed

lemma fetch_zero:
  "fetch_stock_from_psx zero_env ''ZZZ'' =
     Inr (PDict [(''symbol'', PStr ''ZZZ''), (''name'', PStr ''ZZZ''), (''price'', PNum 0),
                 (''change'', PNum 0), (''change_percent'', PNum 0), (''volume'', PNum 0),
                 (''high'', PNum 0), (''low'', PNum 0)])"
  by (simp add: fetch_stock_from_psx_def fetch_body_def zero_env_def mk_env_def
      psx_request_def upper_examples zero_data_def quote_dict_def company_name_def)

lemma try_zero:
  "try_refresh zero_env (mk_live 7 ''ZZZ'') = Updated zero_stock zero_row zero_entry"
proof -
  have a: "assign_quote (mk_live 7 ''ZZZ'')
       (PDict [(''symbol'', PStr ''ZZZ''), (''name'', PStr ''ZZZ''), (''price'', PNum 0),
               (''change'', PNum 0), (''change_percent'', PNum 0), (''volume'', PNum 0),
               (''high'', PNum 0), (''low'', PNum 0)]) = Inr zero_stock"
    by (simp add: assign_quote_def mk_live_def zero_stock_def)
  have s: "db_save zero_env zero_stock = Inr zero_row"
    by (simp add: zero_env_def mk_env_def columns_of_def decimal_column_def
        integer_column_def zero_stock_def zero_row_def round2_zero trunc_rat_def)
  have en: "stock_entry zero_env zero_stock = Inr zero_entry"
    by (simp add: stock_entry_def float_or_none_def int_or_none_def zero_stock_def
        zero_entry_def)
  show ?thesis
    by (rule try_refresh_updated[OF _ _ _ _ a s en, where p = "PNum 0"])
       (simp_all add: live_fields fetch_zero)
qed

theorem zero_fields_serialized_null_witness:
  "try_refresh zero_env (mk_live 7 ''ZZZ'') = Updated zero_stock zero_row zero_entry
   \<and> current_price zero_stock = PNum 0 \<and> py_get zero_entry ''current_price'' = Inr PNone
   \<and> change zero_stock = PNum 0 \<and> py_get zero_entry ''change'' = Inr PNone
   \<and> change_percent zero_stock = PNum 0 \<and> py_get zero_entry ''change_percent'' = Inr PNone
   \<and> volume zero_stock = PNum 0 \<and> py_get zero_entry ''volume'' = Inr PNone
   \<and> high zero_stock = PNum 0 \<and> py_get zero_entry ''high'' = Inr PNone
   \<and> low zero_stock = PNum 0 \<and> py_get zero_entry ''low'' = Inr PNone"
  using zero_fields_serialized_null[OF try_zero] try_zero
  by (simp add: zero_stock_def)

section \<open>Portfolio dashboard\<close>

lemma sum_value_eq:
  "sum_value ts =
     sum_list (map (\<lambda>t. of_int (quantity t) * the (current_price (stock t)))
                   (filter (\<lambda>t. current_price (stock t) \<noteq> None) ts))"
  unfolding sum_value_def
proof (induction ts)
  case Nil
  then show ?case by simp
next
  case (Cons t ts)
  show ?case
  proof (cases "current_price (stock t)")
    case None
    with Cons show ?thesis by simp
  next
    case (Some p)
    with Cons show ?thesis by (cases "p = 0") simp_all
  qed
qed

text \<open>
  Claim C3. In every report the dashboard returns, total\_cost is the sum of quantity
  times buying price over all holdings, total\_value is the sum of quantity times current
  price over the holdings whose Stock has a current price (a holding without one is left
  out), unrealized\_pl is total\_value minus total\_cost, and pl\_percentage is
  unrealized\_pl divided by total\_cost times 100, rounded to two places, when total\_cost
  is not zero, and 0 otherwise.
\<close>

theorem dashboard_totals:
  assumes "portfolio_dashboard d all_trades req = Inr c"
  shows "total_cost c = (\<Sum>t\<leftarrow>holdings c. of_int (quantity t) * buying_price t)
    \<and> total_value c =
        (\<Sum>t\<leftarrow>filter (\<lambda>t. current_price (stock t) \<noteq> None) (holdings c).
            of_int (quantity t) * the (current_price (stock t)))
    \<and> unrealized_pl c = total_value c - total_cost c
    \<and> pl_percentage c =
        (if total_cost c \<noteq> 0 then round2 (unrealized_pl c / total_cost c * 100) else 0)"
proof -
  from assms obtain ts k f where c: "c = build_context req k f ts"
    by (cases "sort_trades d (case get_sort req of None \<Rightarrow> ''symbol'' | Some s \<Rightarrow> s)
          (let trades = filter (\<lambda>t. user t = req_user req) all_trades;
               flt = strip (case get_stock req of None \<Rightarrow> [] | Some s \<Rightarrow> s)
           in if flt \<noteq> [] then filter (\<lambda>t. iexact d (symbol (stock t)) flt) trades
              else trades)")
       (auto simp add: portfolio_dashboard_def Let_def)
  show ?thesis
    unfolding c by (simp add: build_context_def Let_def sum_cost_def sum_value_eq)
qed

theorem dashboard_totals_witness:
  "portfolio_dashboard nulls_low_db [example_trade, unquoted_trade] date_request
     = Inr (build_context date_request ''date'' [] [example_trade, unquoted_trade])
   \<and> total_cost (build_context date_request ''date'' [] [example_trade, unquoted_trade])
       = 1500
   \<and> total_value (build_context date_request ''date'' [] [example_trade, unquoted_trade])
       = 1100
   \<and> unrealized_pl (build_context date_request ''date'' [] [example_trade, unquoted_trade])
       = - 400
   \<and> pl_percentage (build_context date_request ''date'' [] [example_trade, unquoted_trade])
       = - 2667 / 100"
proof -
  have run: "portfolio_dashboard nulls_low_db [example_trade, unquoted_trade] date_request
     = Inr (build_context date_request ''date'' [] [example_trade, unquoted_trade])"
    by (simp add: portfolio_dashboard_def Let_def date_request_def strip_def sort_trades_def
        order_by_def sort_by_le_def example_trade_def unquoted_trade_def mk_trade_def)
  have "\<lfloor>(- 8000 / 3 :: rat)\<rfloor> = - 2667"
    by (rule floor_unique) simp_all
  then have r: "round2 (- 80 / 3) = - 2667 / 100"
    by (simp add: round2_def round_half_even_def Let_def)
  from dashboard_totals[OF run] run r show ?thesis
    by (simp add: build_context_def Let_def sum_cost_def sum_value_def example_trade_def
        unquoted_trade_def mk_trade_def mk_stock_def)
qed

text \<open>
  Claim C2. With sort key profit the view is to return the holdings in descending order
  of the ranking term without raising. It raises instead, for every user and every set
  of Trades: the argument of \<open>order_by\<close> is unary minus applied to a string, a TypeError.
\<close>

theorem profit_sort_raises:
  "portfolio_dashboard d all_trades
     \<lparr>req_user = u, req_username = n, get_stock = f, get_sort = Some ''profit''\<rparr>
     = Inl (Raised TypeError ''bad operand type for unary -'')"
  by (simp add: portfolio_dashboard_def Let_def sort_trades_def)

lemmas hold_defs = hold_a_def hold_b_def hold_c_def mk_trade_def mk_stock_def

text \<open>
  Claim C7. With sort key loss the holdings are to be ordered ascending by the ranking
  term, a holding without a current price counting as 0 times the quantity, as in the
  profit view. The annotation of the loss view has no \<open>Coalesce\<close>: for such a holding
  the ranking value is NULL, and it is placed first or last according to the database
  instead of at its place. For three holdings with ranking terms \<open>-10\<close> (no price),
  \<open>-50\<close> and \<open>10\<close> neither placement gives the ascending order.
\<close>

theorem loss_sort_null_ranking:
  "loss_pl hold_a = None
   \<and> spec_ranking_term hold_a = - 10
   \<and> sort_trades nulls_low_db ''loss'' [hold_a, hold_b, hold_c]
       = Inr [hold_a, hold_b, hold_c]
   \<and> sort_trades nulls_high_db ''loss'' [hold_a, hold_b, hold_c]
       = Inr [hold_b, hold_c, hold_a]
   \<and> map spec_ranking_term [hold_a, hold_b, hold_c] = [- 10, - 50, 10]
   \<and> \<not> sorted (map spec_ranking_term [hold_a, hold_b, hold_c])
   \<and> \<not> sorted (map spec_ranking_term [hold_b, hold_c, hold_a])"
  by (simp add: sort_trades_def order_by_def sort_by_le_def loss_pl_def spec_ranking_term_def
      nulls_low_db_def nulls_high_db_def hold_defs)

end
